theory Spec2Isabelle
  imports Complex_Main "HOL-Library.Word"
begin

unbundle bit_operations_syntax

section \<open>NeuroScan signal-to-score pipeline: eegUtils.js and csvAnalysis.js\<close>

text \<open>
  JavaScript numbers are modelled as exact reals: the rounding of IEEE doubles, overflow to
  Infinity and NaN produced by arithmetic are outside the model. Where the source can reach
  NaN on finite input (a division by a zero sample count) the theorems carry the guard that
  excludes it. Seeds are integer-valued numbers, modelled as \<open>int\<close>; the PRNG state is the
  32-bit value that \<open>seed |= 0\<close> produces. Strings are lists of 8-bit characters, the Greek
  letters of the labels written as their UTF-8 bytes.
\<close>

subsection \<open>Number formatting and rounding of the JavaScript runtime\<close>

text \<open>\<open>Math.round\<close>: nearest integer, ties towards plus infinity.\<close>

definition Math_round :: "real \<Rightarrow> int" where
  "Math_round x = \<lfloor>x + 1 / 2\<rfloor>"

text \<open>
  \<open>parseFloat(x.toFixed(d))\<close>: \<open>toFixed\<close> formats the magnitude with the integer \<open>n\<close>
  nearest to \<open>|x| * 10^d\<close> (the larger one on a tie) and puts the sign in front.
\<close>

definition toFixed :: "nat \<Rightarrow> real \<Rightarrow> real" where
  "toFixed d x =
     (if x < 0 then - (real_of_int \<lfloor>- x * 10 ^ d + 1 / 2\<rfloor> / 10 ^ d)
      else real_of_int \<lfloor>x * 10 ^ d + 1 / 2\<rfloor> / 10 ^ d)"

subsection \<open>Double-precision arithmetic\<close>

text \<open>
  A finite double is the real number it denotes. \<open>rd\<close> rounds a real to the nearest double,
  ties to the even significand, with 53 significant bits and the gradual underflow below
  \<open>2^-1022\<close>; \<open>exponent a\<close> is the binary exponent of \<open>a > 0\<close>, not below -1022. Every
  arithmetic operation of the source is the exact operation followed by \<open>rd\<close>. Results of
  magnitude \<open>2^1024\<close> or more (Infinity in the source) are not represented at this level.
\<close>

definition round_even :: "real \<Rightarrow> int" where
  "round_even y =
     (let f = \<lfloor>y\<rfloor>; d = y - real_of_int f
      in if d < 1 / 2 then f else if 1 / 2 < d then f + 1 else if even f then f else f + 1)"

function exp_hi :: "real \<Rightarrow> int" where
  "exp_hi a = (if a < 2 then 0 else 1 + exp_hi (a / 2))"
  by pat_completeness auto
termination
  by (relation "measure (\<lambda>a. nat \<lceil>a\<rceil>)") (auto, linarith)

function exp_lo :: "real \<Rightarrow> int \<Rightarrow> int" where
  "exp_lo a e = (if 1 \<le> a \<or> e \<le> - 1022 then e else exp_lo (2 * a) (e - 1))"
  by pat_completeness auto
termination
  by (relation "measure (\<lambda>(a, e). nat (e + 1022))") auto

declare exp_hi.simps [simp del] exp_lo.simps [simp del]

definition exponent :: "real \<Rightarrow> int" where
  "exponent a = (if 1 \<le> a then exp_hi a else exp_lo a 0)"

definition rd :: "real \<Rightarrow> real" where
  "rd x = (if x = 0 then 0
           else (let u = 2 powi (exponent \<bar>x\<bar> - 52) in real_of_int (round_even (x / u)) * u))"

text \<open>A decimal literal of the source denotes the double nearest to it.\<close>

definition dbl :: "real \<Rightarrow> real" where
  "dbl x = rd x"

definition fadd :: "real \<Rightarrow> real \<Rightarrow> real" where
  "fadd x y = rd (x + y)"

definition fsub :: "real \<Rightarrow> real \<Rightarrow> real" where
  "fsub x y = rd (x - y)"

definition fmul :: "real \<Rightarrow> real \<Rightarrow> real" where
  "fmul x y = rd (x * y)"

definition fdiv :: "real \<Rightarrow> real \<Rightarrow> real" where
  "fdiv x y = rd (x / y)"

text \<open>\<open>parseFloat(x.toFixed(d))\<close> on a double: the decimal is read back as a double.\<close>

definition stored :: "nat \<Rightarrow> real \<Rightarrow> real" where
  "stored d x = rd (toFixed d x)"

text \<open>Decimal rendering of an integer, as string concatenation with a number does.\<close>

definition digit_char :: "nat \<Rightarrow> char" where
  "digit_char n = ''0123456789'' ! n"

fun show_nat :: "nat \<Rightarrow> string" where
  "show_nat n = (if n < 10 then [digit_char n] else show_nat (n div 10) @ [digit_char (n mod 10)])"

declare show_nat.simps [simp del]

definition show_int :: "int \<Rightarrow> string" where
  "show_int i = (if i < 0 then CHR ''-'' # show_nat (nat (- i)) else show_nat (nat i))"

subsection \<open>mulberry32\<close>

text \<open>
  The closure returned by \<open>mulberry32(seed)\<close> keeps \<open>seed\<close> as its only state. A call
  returns the draw together with the new state.
\<close>

type_synonym rng = "32 word"

definition mulberry32 :: "int \<Rightarrow> rng" where
  "mulberry32 seed = word_of_int seed"

definition rng_bits :: "rng \<Rightarrow> 32 word" where
  "rng_bits s =
     (let seed = s + 0x6d2b79f5;
          t = (seed XOR drop_bit 15 seed) * (1 OR seed);
          t = (t + (t XOR drop_bit 7 t) * (61 OR t)) XOR t
      in t XOR drop_bit 14 t)"

definition rng_call :: "rng \<Rightarrow> real \<times> rng" where
  "rng_call s = (real (unat (rng_bits s)) / 4294967296, s + 0x6d2b79f5)"

subsection \<open>classifyRisk\<close>

record classification =
  level :: string
  color :: string
  recommendation :: string
  alert :: string

definition classifyRisk :: "int \<Rightarrow> classification" where
  "classifyRisk score =
     (if score \<ge> 60 then
        \<lparr> level = ''High Risk'', color = ''#ef4444'',
          recommendation = ''Immediate psychiatric consultation recommended'',
          alert = ''Elevated slow-wave activity and reduced alpha coherence patterns observed. Recommend psychiatric evaluation.'' \<rparr>
      else if score \<ge> 40 then
        \<lparr> level = ''Moderate'', color = ''#f59e0b'',
          recommendation = ''Schedule follow-up evaluation'',
          alert = ''Borderline EEG patterns detected. Some abnormalities present. Monitor and retest in 3 months.'' \<rparr>
      else
        \<lparr> level = ''Low Risk'', color = ''#10b981'',
          recommendation = ''Routine monitoring'',
          alert = ''EEG patterns within healthy reference range. No significant abnormalities detected.'' \<rparr>)"

subsection \<open>computeRiskScore\<close>

record bandPowers =
  delta :: real
  theta :: real
  alpha :: real
  beta :: real
  gamma :: real

record riskResult =
  score :: int
  confidence :: int
  keyMarker :: string
  keyDeviation :: string
  components :: "(string \<times> real) list"

definition u_delta :: string where "u_delta = [CHR 0xCE, CHR 0xB4]"
definition u_theta :: string where "u_theta = [CHR 0xCE, CHR 0xB8]"
definition u_alpha :: string where "u_alpha = [CHR 0xCE, CHR 0xB1]"
definition u_beta :: string where "u_beta = [CHR 0xCE, CHR 0xB2]"
definition u_gamma :: string where "u_gamma = [CHR 0xCE, CHR 0xB3]"

text \<open>The object \<open>components\<close>, as the list of its entries in insertion order.\<close>

definition risk_components :: "bandPowers \<Rightarrow> (string \<times> real) list" where
  "risk_components bp =
     [(''delta'', stored 2 (fmul (fsub (fdiv (delta bp) (dbl 1.2)) 1) 20)),
      (''theta'', stored 2 (fmul (fsub (fdiv (theta bp) (dbl 0.7)) 1) 15)),
      (''alpha'', stored 2 (fmul (fsub 1 (fdiv (alpha bp) (dbl 1.8))) 35)),
      (''gamma'', stored 2 (fmul (fsub (fdiv (gamma bp) (dbl 0.2)) 1) 10))]"

text \<open>\<open>reduce\<close> without an initial value starts from the first element.\<close>

fun reduce1 :: "('a \<Rightarrow> 'a \<Rightarrow> 'a) \<Rightarrow> 'a list \<Rightarrow> 'a option" where
  "reduce1 f [] = None"
| "reduce1 f (x # xs) = Some (foldl f x xs)"

text \<open>The callback \<open>(a, b) => b[1] > a[1] ? b : a\<close> of the key-band reduction.\<close>

definition pick :: "string \<times> real \<Rightarrow> string \<times> real \<Rightarrow> string \<times> real" where
  "pick a b = (if snd b > snd a then b else a)"

definition keyBand_of :: "(string \<times> real) list \<Rightarrow> string" where
  "keyBand_of cs = (case reduce1 pick cs of
                      Some e \<Rightarrow> fst e | None \<Rightarrow> [])"

definition markerMap :: "string \<Rightarrow> string" where
  "markerMap b =
     (if b = ''delta'' then u_delta @ '' Elevation''
      else if b = ''theta'' then u_theta @ '' Elevation''
      else if b = ''alpha'' then u_alpha @ '' Suppression''
      else if b = ''gamma'' then u_gamma @ '' Dysregulation''
      else [])"

definition deviations :: "bandPowers \<Rightarrow> string \<Rightarrow> string" where
  "deviations bp b =
     (if b = ''delta'' then
        ''+'' @ show_int (Math_round (fmul (fsub (fdiv (delta bp) (dbl 1.2)) 1) 100)) @ ''% above normal''
      else if b = ''theta'' then
        ''+'' @ show_int (Math_round (fmul (fsub (fdiv (theta bp) (dbl 0.7)) 1) 100)) @ ''% above normal''
      else if b = ''alpha'' then
        ''-'' @ show_int (Math_round (fmul (fsub 1 (fdiv (alpha bp) (dbl 1.8))) 100)) @ ''% below normal''
      else if b = ''gamma'' then
        ''+'' @ show_int (Math_round (fmul (fsub (fdiv (gamma bp) (dbl 0.2)) 1) 100)) @ ''% above normal''
      else [])"

text \<open>
  The first draw is \<open>k / 2^32\<close> with \<open>k < 2^32\<close>, so \<open>80 + rng() * 15\<close> has a numerator
  below \<open>2^39\<close> over \<open>2^32\<close> and is computed without rounding.
\<close>

definition computeRiskScore :: "bandPowers \<Rightarrow> int \<Rightarrow> riskResult" where
  "computeRiskScore bp seed =
     (let rng = mulberry32 (seed + 2000);
          comps = risk_components bp;
          rawScore = foldl fadd 0 (map snd comps);
          sc = min 100 (max 0 (Math_round (fmul rawScore (dbl 1.2))));
          conf = Math_round (80 + fst (rng_call rng) * 15);
          keyBand = keyBand_of comps
      in \<lparr> score = sc, confidence = conf, keyMarker = markerMap keyBand,
           keyDeviation = deviations bp keyBand, components = comps \<rparr>)"

subsection \<open>parseCSV\<close>

text \<open>
  Text is a list of 8-bit code units. The white space that \<open>trim\<close> removes, in that range:
  tab, line feed, vertical tab, form feed, carriage return, space and no-break space.
\<close>

definition is_ws :: "char \<Rightarrow> bool" where
  "is_ws c = (of_char c \<in> {9, 10, 11, 12, 13, 32, 160 :: nat})"

definition trim :: "string \<Rightarrow> string" where
  "trim s = rev (dropWhile is_ws (rev (dropWhile is_ws s)))"

text \<open>
  \<open>toLowerCase\<close> on 8-bit code units: the letters A to Z, and the accented capitals
  0xC0 to 0xDE (0xD7, the multiplication sign, has no lower case).
\<close>

definition upper_chars :: string where
  "upper_chars = ''ABCDEFGHIJKLMNOPQRSTUVWXYZ'' @
     [CHR 0xC0, CHR 0xC1, CHR 0xC2, CHR 0xC3, CHR 0xC4, CHR 0xC5, CHR 0xC6, CHR 0xC7, CHR 0xC8, CHR 0xC9, CHR 0xCA, CHR 0xCB, CHR 0xCC, CHR 0xCD, CHR 0xCE, CHR 0xCF,
      CHR 0xD0, CHR 0xD1, CHR 0xD2, CHR 0xD3, CHR 0xD4, CHR 0xD5, CHR 0xD6, CHR 0xD8, CHR 0xD9, CHR 0xDA, CHR 0xDB, CHR 0xDC, CHR 0xDD, CHR 0xDE]"

definition lower_chars :: string where
  "lower_chars = ''abcdefghijklmnopqrstuvwxyz'' @
     [CHR 0xE0, CHR 0xE1, CHR 0xE2, CHR 0xE3, CHR 0xE4, CHR 0xE5, CHR 0xE6, CHR 0xE7, CHR 0xE8, CHR 0xE9, CHR 0xEA, CHR 0xEB, CHR 0xEC, CHR 0xED, CHR 0xEE, CHR 0xEF,
      CHR 0xF0, CHR 0xF1, CHR 0xF2, CHR 0xF3, CHR 0xF4, CHR 0xF5, CHR 0xF6, CHR 0xF8, CHR 0xF9, CHR 0xFA, CHR 0xFB, CHR 0xFC, CHR 0xFD, CHR 0xFE]"

definition toLowerCase_char :: "char \<Rightarrow> char" where
  "toLowerCase_char c = (case map_of (zip upper_chars lower_chars) c of Some l \<Rightarrow> l | None \<Rightarrow> c)"

definition toLowerCase :: "string \<Rightarrow> string" where
  "toLowerCase s = map toLowerCase_char s"

text \<open>\<open>split(/\r?\n/)\<close>: a line feed, with the carriage return before it if there is one, separates.\<close>

fun split_lines :: "string \<Rightarrow> string list" where
  "split_lines [] = [[]]"
| "split_lines [c] = (if c = CHR 0x0A then [[], []] else [[c]])"
| "split_lines (c # d # cs) =
     (if c = CHR 0x0D \<and> d = CHR 0x0A then [] # split_lines cs
      else if c = CHR 0x0A then [] # split_lines (d # cs)
      else (case split_lines (d # cs) of l # ls \<Rightarrow> (c # l) # ls | [] \<Rightarrow> [[c]]))"

text \<open>\<open>split(",")\<close>: the empty string splits into one empty cell.\<close>

fun split_on :: "char \<Rightarrow> string \<Rightarrow> string list" where
  "split_on sep [] = [[]]"
| "split_on sep (c # cs) =
     (if c = sep then [] # split_on sep cs
      else (case split_on sep cs of l # ls \<Rightarrow> (c # l) # ls | [] \<Rightarrow> [[c]]))"

fun join :: "string \<Rightarrow> string list \<Rightarrow> string" where
  "join sep [] = []"
| "join sep [x] = x"
| "join sep (x # y # ys) = x @ sep @ join sep (y # ys)"

text \<open>\<open>indexOf\<close>: the first position, or -1.\<close>

fun indexOf :: "'a list \<Rightarrow> 'a \<Rightarrow> int" where
  "indexOf [] x = - 1"
| "indexOf (y # ys) x = (if y = x then 0 else (let i = indexOf ys x in if i < 0 then - 1 else i + 1))"

text \<open>
  The values \<open>parseFloat\<close> can return. A finite value is the exact decimal that the text
  denotes; the rounding to a double, and the overflow of a long literal to Infinity, are
  not modelled.
\<close>

datatype number = Finite real | PosInfinity | NegInfinity | NaN

definition isNaN :: "number \<Rightarrow> bool" where
  "isNaN x = (x = NaN)"

definition is_digit :: "char \<Rightarrow> bool" where
  "is_digit c = (48 \<le> (of_char c :: nat) \<and> (of_char c :: nat) \<le> 57)"

definition digits_val :: "string \<Rightarrow> nat" where
  "digits_val ds = foldl (\<lambda>a c. 10 * a + (of_char c - 48)) 0 ds"

text \<open>The exponent part is read only when a digit follows the optional sign.\<close>

definition parse_exponent :: "string \<Rightarrow> int" where
  "parse_exponent s =
     (case s of
        [] \<Rightarrow> 0
      | c # r \<Rightarrow>
          if c = CHR ''e'' \<or> c = CHR ''E'' then
            (case r of
               [] \<Rightarrow> 0
             | sg # r' \<Rightarrow>
                 if sg = CHR ''-'' then
                   (if takeWhile is_digit r' = [] then 0 else - int (digits_val (takeWhile is_digit r')))
                 else if sg = CHR ''+'' then
                   (if takeWhile is_digit r' = [] then 0 else int (digits_val (takeWhile is_digit r')))
                 else
                   (if takeWhile is_digit r = [] then 0 else int (digits_val (takeWhile is_digit r))))
          else 0)"

text \<open>
  The longest prefix that is an unsigned decimal literal: digits, an optional point with
  optional digits, an optional exponent; or a point followed by digits.
\<close>

definition parse_unsigned :: "string \<Rightarrow> real option" where
  "parse_unsigned s =
     (let d1 = takeWhile is_digit s;
          r1 = dropWhile is_digit s;
          dot = (r1 \<noteq> [] \<and> hd r1 = CHR ''.'');
          d2 = (if dot then takeWhile is_digit (tl r1) else []);
          r2 = (if dot then dropWhile is_digit (tl r1) else r1);
          e = parse_exponent r2;
          m = real (digits_val d1) + real (digits_val d2) / 10 ^ length d2
      in if d1 = [] \<and> d2 = [] then None
         else Some (if e < 0 then m / 10 ^ nat (- e) else m * 10 ^ nat e))"

definition parseFloat :: "string \<Rightarrow> number" where
  "parseFloat s =
     (let t = dropWhile is_ws s;
          neg = (t \<noteq> [] \<and> hd t = CHR ''-'');
          u = (if t \<noteq> [] \<and> (hd t = CHR ''-'' \<or> hd t = CHR ''+'') then tl t else t)
      in if take 8 u = ''Infinity'' then (if neg then NegInfinity else PosInfinity)
         else (case parse_unsigned u of
                 None \<Rightarrow> NaN
               | Some v \<Rightarrow> Finite (if neg then - v else v)))"

text \<open>\<open>parseFloat(cells[i])\<close>: an index outside the array reads \<open>undefined\<close>, which parses to NaN.\<close>

definition parseFloat_cell :: "string list \<Rightarrow> int \<Rightarrow> number" where
  "parseFloat_cell cells i = (if 0 \<le> i \<and> nat i < length cells then parseFloat (cells ! nat i) else NaN)"

record 'a sample =
  time :: 'a
  Fp1 :: 'a
  F3 :: 'a
  C3 :: 'a
  P3 :: 'a
  O1 :: 'a

definition requiredCols :: "string list" where
  "requiredCols = [''time'', ''fp1'', ''f3'', ''c3'', ''p3'', ''o1'']"

text \<open>The body of the row loop: \<open>None\<close> is \<open>continue\<close>, \<open>Some\<close> the sample pushed.\<close>

definition parse_row :: "nat \<Rightarrow> (string \<Rightarrow> int) \<Rightarrow> string \<Rightarrow> number sample option" where
  "parse_row header_length colIndex line =
     (let cells = map trim (split_on CHR '','' line)
      in if length cells < header_length then None
         else
           let t = parseFloat_cell cells (colIndex ''time'');
               v1 = parseFloat_cell cells (colIndex ''fp1'');
               v2 = parseFloat_cell cells (colIndex ''f3'');
               v3 = parseFloat_cell cells (colIndex ''c3'');
               v4 = parseFloat_cell cells (colIndex ''p3'');
               v5 = parseFloat_cell cells (colIndex ''o1'')
           in if list_ex isNaN [t, v1, v2, v3, v4, v5] then None
              else Some \<lparr> time = t, Fp1 = v1, F3 = v2, C3 = v3, P3 = v4, O1 = v5 \<rparr>)"

fun parse_rows :: "nat \<Rightarrow> (string \<Rightarrow> int) \<Rightarrow> string list \<Rightarrow> number sample list" where
  "parse_rows header_length colIndex [] = []"
| "parse_rows header_length colIndex (l # ls) =
     (case parse_row header_length colIndex l of
        None \<Rightarrow> parse_rows header_length colIndex ls
      | Some s \<Rightarrow> s # parse_rows header_length colIndex ls)"

definition csv_lines :: "string \<Rightarrow> string list" where
  "csv_lines text = filter (\<lambda>l. trim l \<noteq> []) (split_lines (trim text))"

definition csv_header :: "string list \<Rightarrow> string list" where
  "csv_header lines = map (\<lambda>h. toLowerCase (trim h)) (split_on CHR '','' (hd lines))"

definition missing_cols :: "string list \<Rightarrow> string list" where
  "missing_cols header = filter (\<lambda>col. col \<notin> set header) requiredCols"

text \<open>The array \<open>signal\<close> when the row loop has finished.\<close>

definition csv_signal :: "string list \<Rightarrow> number sample list" where
  "csv_signal lines =
     parse_rows (length (csv_header lines)) (indexOf (csv_header lines)) (tl lines)"

text \<open>The result \<open>{ signal, error }\<close>: \<open>Inl\<close> carries the error message, \<open>Inr\<close> the signal.\<close>

definition parseCSV :: "string \<Rightarrow> string + number sample list" where
  "parseCSV text =
     (let lines = csv_lines text
      in if length lines < 2 then
           Inl ''CSV must have a header row and at least one data row.''
         else
           let missing = missing_cols (csv_header lines)
           in if length missing > 0 then
                Inl (''Missing required columns: '' @ join '', '' missing
                     @ ''. Expected: time, Fp1, F3, C3, P3, O1'')
              else
                let signal = csv_signal lines
                in if length signal = 0 then
                     Inl ''No valid numeric data rows found in the CSV.''
                   else if length signal < 128 then
                     Inl (''CSV too short ('' @ show_nat (length signal)
                          @ '' rows). Need at least 128 data rows (~0.5 seconds at 256Hz) for accurate frequency analysis.'')
                   else Inr signal)"

text \<open>
  The row filter as the specification words it (for comparison with the loop): a row is kept
  when it has at least as many cells as the header and each of its six required cells
  parses to a number; the sample kept holds the six parsed values.
\<close>

definition row_cells :: "string \<Rightarrow> string list" where
  "row_cells line = map trim (split_on CHR '','' line)"

definition required_cell :: "string list \<Rightarrow> string \<Rightarrow> string \<Rightarrow> number" where
  "required_cell header line col = parseFloat (row_cells line ! nat (indexOf header col))"

definition row_kept :: "string list \<Rightarrow> string \<Rightarrow> bool" where
  "row_kept header line =
     (length header \<le> length (row_cells line)
      \<and> list_all (\<lambda>col. required_cell header line col \<noteq> NaN) requiredCols)"

definition row_sample :: "string list \<Rightarrow> string \<Rightarrow> number sample" where
  "row_sample header line =
     \<lparr> time = required_cell header line ''time'', Fp1 = required_cell header line ''fp1'',
       F3 = required_cell header line ''f3'', C3 = required_cell header line ''c3'',
       P3 = required_cell header line ''p3'', O1 = required_cell header line ''o1'' \<rparr>"

text \<open>Example inputs: the one-row file of the specification, and a file of 128 rows that
  carry an extra cell and text in a column that is not required.\<close>

definition csv_one_row :: string where
  "csv_one_row = ''time,Fp1,F3,C3,P3,O1'' @ [CHR 0x0A] @ ''0,1,2,3,4,5''"

definition csv_wide_rows :: string where
  "csv_wide_rows = ''time,Fp1,F3,C3,P3,O1,note''
                   @ concat (replicate 128 (CHR 0x0A # ''0,1,2,3,4,5,abc,extra''))"

subsection \<open>Array sort with a comparison function\<close>

text \<open>
  \<open>Array.prototype.sort\<close> is stable; with a comparison function that orders the elements
  consistently its result is the one of a stable insertion sort, which is the model here:
  an element goes in front of the first element it does not compare greater than.
\<close>

fun insort_cmp :: "('a \<Rightarrow> 'a \<Rightarrow> real) \<Rightarrow> 'a \<Rightarrow> 'a list \<Rightarrow> 'a list" where
  "insort_cmp cmp x [] = [x]"
| "insort_cmp cmp x (y # ys) = (if cmp x y \<le> 0 then x # y # ys else y # insort_cmp cmp x ys)"

definition js_sort :: "('a \<Rightarrow> 'a \<Rightarrow> real) \<Rightarrow> 'a list \<Rightarrow> 'a list" where
  "js_sort cmp xs = foldr (insort_cmp cmp) xs []"

subsection \<open>generateSHAPValues\<close>

text \<open>The band tag of a feature is one of six fixed strings, the keys of the four tables.\<close>

datatype fband = Alpha | Delta | Theta | Gamma | Beta | Coh

record feature =
  name :: string
  band :: fband
  region :: string

record shapEntry = feature +
  shap_value :: real

definition u_dot :: string where "u_dot = [CHR 0xC2, CHR 0xB7]"
definition u_arrow :: string where "u_arrow = [CHR 0xE2, CHR 0x86, CHR 0x92]"

definition features :: "feature list" where
  "features =
     [\<lparr> name = u_alpha @ '' '' @ u_dot @ '' Fz'', band = Alpha, region = ''Frontal'' \<rparr>,
      \<lparr> name = u_delta @ '' '' @ u_dot @ '' Cz'', band = Delta, region = ''Central'' \<rparr>,
      \<lparr> name = u_theta @ '' '' @ u_dot @ '' F3'', band = Theta, region = ''Frontal'' \<rparr>,
      \<lparr> name = u_gamma @ '' '' @ u_dot @ '' Fp1'', band = Gamma, region = ''Prefrontal'' \<rparr>,
      \<lparr> name = u_alpha @ '' '' @ u_dot @ '' C3'', band = Alpha, region = ''Central'' \<rparr>,
      \<lparr> name = ''Coh '' @ u_dot @ '' Fz'' @ u_arrow @ ''Pz'', band = Coh, region = ''F-P'' \<rparr>,
      \<lparr> name = u_delta @ '' '' @ u_dot @ '' F4'', band = Delta, region = ''Frontal'' \<rparr>,
      \<lparr> name = u_theta @ '' '' @ u_dot @ '' Pz'', band = Theta, region = ''Parietal'' \<rparr>,
      \<lparr> name = u_alpha @ '' '' @ u_dot @ '' O1'', band = Alpha, region = ''Occipital'' \<rparr>,
      \<lparr> name = u_beta @ '' '' @ u_dot @ '' C4'', band = Beta, region = ''Central'' \<rparr>,
      \<lparr> name = u_gamma @ '' '' @ u_dot @ '' F3'', band = Gamma, region = ''Frontal'' \<rparr>,
      \<lparr> name = ''Coh '' @ u_dot @ '' F3'' @ u_arrow @ ''P3'', band = Coh, region = ''F-P'' \<rparr>,
      \<lparr> name = u_delta @ '' '' @ u_dot @ '' Fp1'', band = Delta, region = ''Prefrontal'' \<rparr>,
      \<lparr> name = u_theta @ '' '' @ u_dot @ '' C3'', band = Theta, region = ''Central'' \<rparr>,
      \<lparr> name = u_alpha @ '' '' @ u_dot @ '' Fp2'', band = Alpha, region = ''Prefrontal'' \<rparr>]"

fun szSign :: "fband \<Rightarrow> real" where
  "szSign Alpha = - 1" | "szSign Delta = 1" | "szSign Theta = 1"
| "szSign Gamma = 1" | "szSign Beta = - 1" | "szSign Coh = - 1"

fun hSign :: "fband \<Rightarrow> real" where
  "hSign Alpha = 1" | "hSign Delta = - 1" | "hSign Theta = - 1"
| "hSign Gamma = - 1" | "hSign Beta = 1" | "hSign Coh = 1"

fun szMag :: "fband \<Rightarrow> real \<times> real" where
  "szMag Alpha = (0.15, 0.35)" | "szMag Delta = (0.10, 0.28)" | "szMag Theta = (0.08, 0.20)"
| "szMag Gamma = (0.08, 0.22)" | "szMag Beta = (0.05, 0.15)" | "szMag Coh = (0.08, 0.18)"

fun hMag :: "fband \<Rightarrow> real \<times> real" where
  "hMag Alpha = (0.05, 0.15)" | "hMag Delta = (0.03, 0.10)" | "hMag Theta = (0.03, 0.08)"
| "hMag Gamma = (0.03, 0.08)" | "hMag Beta = (0.02, 0.08)" | "hMag Coh = (0.03, 0.10)"

text \<open>The callback of \<open>features.map\<close>, with the generator state passed through.\<close>

definition shap_simulated :: "bool \<Rightarrow> feature \<Rightarrow> rng \<Rightarrow> shapEntry \<times> rng" where
  "shap_simulated isSZ f g =
     (let mag = (if isSZ then szMag (band f) else hMag (band f));
          sign = (if isSZ then szSign (band f) else hSign (band f));
          (r1, g1) = rng_call g;
          base = fst mag + r1 * (snd mag - fst mag);
          (r2, g2) = rng_call g1;
          noise = (r2 - 0.5) * 0.03
      in (\<lparr> name = name f, band = band f, region = region f,
            shap_value = toFixed 4 (sign * (base + noise)) \<rparr>, g2))"

fun map_rng :: "('a \<Rightarrow> rng \<Rightarrow> 'b \<times> rng) \<Rightarrow> 'a list \<Rightarrow> rng \<Rightarrow> 'b list \<times> rng" where
  "map_rng f [] g = ([], g)"
| "map_rng f (x # xs) g =
     (let (y, g1) = f x g; (ys, g2) = map_rng f xs g1 in (y # ys, g2))"

text \<open>The comparison function \<open>(a, b) => Math.abs(b.value) - Math.abs(a.value)\<close>.\<close>

definition by_abs_desc :: "shapEntry \<Rightarrow> shapEntry \<Rightarrow> real" where
  "by_abs_desc a b = \<bar>shap_value b\<bar> - \<bar>shap_value a\<bar>"

definition generateSHAPValues :: "bool \<Rightarrow> int \<Rightarrow> shapEntry list" where
  "generateSHAPValues isSZ seed =
     (let rng = mulberry32 (seed + 3000);
          shapValues = fst (map_rng (shap_simulated isSZ) features rng)
      in js_sort by_abs_desc shapValues)"

subsection \<open>computeCoherence\<close>



subsection \<open>generateSHAPFromBandPowers\<close>

text \<open>\<open>x || d\<close> on a number: the default replaces zero (and NaN, which the model has not).\<close>

definition js_or :: "real \<Rightarrow> real \<Rightarrow> real" where
  "js_or x d = (if x = 0 then d else x)"

text \<open>\<open>bandPowers[f.band]\<close> and \<open>baselines[f.band]\<close>: the key \<open>coh\<close> is absent from both.\<close>

fun band_power :: "bandPowers \<Rightarrow> fband \<Rightarrow> real option" where
  "band_power bp Alpha = Some (alpha bp)"
| "band_power bp Delta = Some (delta bp)"
| "band_power bp Theta = Some (theta bp)"
| "band_power bp Gamma = Some (gamma bp)"
| "band_power bp Beta = Some (beta bp)"
| "band_power bp Coh = None"

fun baselines :: "fband \<Rightarrow> real option" where
  "baselines Delta = Some 1.2"
| "baselines Theta = Some 0.7"
| "baselines Alpha = Some 1.8"
| "baselines Beta = Some 0.5"
| "baselines Gamma = Some 0.2"
| "baselines Coh = None"

definition or_undefined :: "real option \<Rightarrow> real \<Rightarrow> real" where
  "or_undefined v d = (case v of None \<Rightarrow> d | Some x \<Rightarrow> js_or x d)"

text \<open>The seed that both analyzeCSV and generateSHAPFromBandPowers derive from the data.\<close>

definition csv_seed :: "bandPowers \<Rightarrow> int" where
  "csv_seed bp = Math_round (js_or (alpha bp) 1 * 10000)"

definition shap_measured :: "bandPowers \<Rightarrow> feature \<Rightarrow> rng \<Rightarrow> shapEntry \<times> rng" where
  "shap_measured bp f g =
     (let (r, g1) = rng_call g;
          v = (if band f = Coh then
                 (let alphaRatio = js_or (alpha bp) 1 / 1.8
                  in toFixed 4 ((1 - alphaRatio) * 0.15 + (r - 0.5) * 0.03))
               else
                 (let actual = or_undefined (band_power bp (band f)) 0;
                      baseline = or_undefined (baselines (band f)) 1;
                      deviation = (actual - baseline) / baseline
                  in if band f = Alpha then toFixed 4 (- deviation * 0.3 + (r - 0.5) * 0.02)
                     else toFixed 4 (deviation * 0.2 + (r - 0.5) * 0.02)))
      in (\<lparr> name = name f, band = band f, region = region f, shap_value = v \<rparr>, g1))"

definition generateSHAPFromBandPowers :: "bandPowers \<Rightarrow> shapEntry list" where
  "generateSHAPFromBandPowers bp =
     (let rng = mulberry32 (csv_seed bp);
          shapValues = fst (map_rng (shap_measured bp) features rng)
      in js_sort by_abs_desc shapValues)"

subsection \<open>computeBandPowersFromSignal\<close>











subsection \<open>analyzeCSV\<close>

record analysis =
  riskScore :: int
  confidence' :: int
  keyMarker' :: string
  keyDeviation' :: string
  classification :: classification
  eegSignal :: "real sample list"
  bandPowers :: bandPowers
  shapValues :: "shapEntry list"
  coherence :: "(string \<times> real) list"





subsection \<open>generateEEGSignal\<close>

record chan_params =
  dA :: real
  tA :: real
  aA :: real
  bA :: real
  gA :: real
  dP :: real
  tP :: real
  aP :: real
  bP :: real
  gP :: real

text \<open>The pathology branch: four draws scale delta, theta, alpha and gamma.\<close>

definition sz_branch :: "real \<times> real \<times> real \<times> real \<Rightarrow> rng \<Rightarrow> (real \<times> real \<times> real \<times> real) \<times> rng" where
  "sz_branch amps g =
     (case amps of (d, t, a, gm) \<Rightarrow>
        (let (r1, g1) = rng_call g;
             d' = d * (1.8 + r1 * 0.7);
             (r2, g2) = rng_call g1;
             t' = t * (1.5 + r2 * 0.5);
             (r3, g3) = rng_call g2;
             a' = a * (0.3 + r3 * 0.3);
             (r4, g4) = rng_call g3;
             gm' = gm * (1.5 + r4 * 0.7)
         in ((d', t', a', gm'), g4)))"

text \<open>The other branch: \<open>rng(); rng(); rng(); rng();\<close>.\<close>

definition healthy_branch :: "real \<times> real \<times> real \<times> real \<Rightarrow> rng \<Rightarrow> (real \<times> real \<times> real \<times> real) \<times> rng" where
  "healthy_branch amps g =
     (let g1 = snd (rng_call g);
          g2 = snd (rng_call g1);
          g3 = snd (rng_call g2);
          g4 = snd (rng_call g3)
      in (amps, g4))"

text \<open>The callback of \<open>channels.map\<close>: the parameters of one channel.\<close>

definition channel_params :: "bool \<Rightarrow> string \<Rightarrow> rng \<Rightarrow> chan_params \<times> rng" where
  "channel_params isSZ ch g =
     (let (r1, g1) = rng_call g;
          (r2, g2) = rng_call g1;
          (r3, g3) = rng_call g2;
          (r4, g4) = rng_call g3;
          (r5, g5) = rng_call g4;
          d = 0.5 + r1 * 1.0;
          t = 0.3 + r2 * 0.5;
          a = 0.8 + r3 * 1.2;
          b = 0.2 + r4 * 0.4;
          gm = 0.1 + r5 * 0.2;
          (amps, g9) = (if isSZ then sz_branch (d, t, a, gm) g5 else healthy_branch (d, t, a, gm) g5);
          (p1, g10) = rng_call g9;
          (p2, g11) = rng_call g10;
          (p3, g12) = rng_call g11;
          (p4, g13) = rng_call g12;
          (p5, g14) = rng_call g13
      in (case amps of (d', t', a', gm') \<Rightarrow>
            (\<lparr> dA = d', tA = t', aA = a', bA = b, gA = gm',
               dP = p1 * 2 * pi, tP = p2 * 2 * pi, aP = p3 * 2 * pi, bP = p4 * 2 * pi,
               gP = p5 * 2 * pi \<rparr>, g14)))"

definition channels :: "string list" where
  "channels = [''Fp1'', ''F3'', ''C3'', ''P3'', ''O1'']"

text \<open>The five sinusoids of one channel at time \<open>t\<close>.\<close>

definition wave :: "chan_params \<Rightarrow> real \<Rightarrow> real" where
  "wave p t =
     dA p * sin (2 * pi * 2 * t + dP p) + tA p * sin (2 * pi * 6 * t + tP p)
     + aA p * sin (2 * pi * 10 * t + aP p) + bA p * sin (2 * pi * 20 * t + bP p)
     + gA p * sin (2 * pi * 40 * t + gP p)"

text \<open>The callback of \<open>channels.forEach\<close> in the sample loop: one noise draw, one value.\<close>

definition channel_value :: "chan_params list \<Rightarrow> real \<Rightarrow> nat \<Rightarrow> rng \<Rightarrow> real \<times> rng" where
  "channel_value params t ci g =
     (let (r, g1) = rng_call g;
          noise = (r - 0.5) * 0.6
      in (wave (params ! ci) t + noise, g1))"

definition make_point :: "chan_params list \<Rightarrow> nat \<Rightarrow> rng \<Rightarrow> real sample \<times> rng" where
  "make_point params i g =
     (let t = real i / 256;
          (v0, g1) = channel_value params t 0 g;
          (v1, g2) = channel_value params t 1 g1;
          (v2, g3) = channel_value params t 2 g2;
          (v3, g4) = channel_value params t 3 g3;
          (v4, g5) = channel_value params t 4 g4
      in (\<lparr> time = toFixed 4 t, Fp1 = v0, F3 = v1, C3 = v2, P3 = v3, O1 = v4 \<rparr>, g5))"

text \<open>The sample loop, from index \<open>i\<close>, with \<open>n\<close> samples still to produce.\<close>

fun signal_loop :: "chan_params list \<Rightarrow> nat \<Rightarrow> nat \<Rightarrow> rng \<Rightarrow> real sample list" where
  "signal_loop params i 0 g = []"
| "signal_loop params i (Suc n) g =
     (let (p, g1) = make_point params i g in p # signal_loop params (Suc i) n g1)"

definition setup_params :: "bool \<Rightarrow> int \<Rightarrow> chan_params list \<times> rng" where
  "setup_params isSZ seed = map_rng (channel_params isSZ) channels (mulberry32 seed)"

definition generateEEGSignal :: "bool \<Rightarrow> int \<Rightarrow> real sample list" where
  "generateEEGSignal isSZ seed =
     (let (params, g) = setup_params isSZ seed
      in signal_loop params 0 (256 * 5) g)"

text \<open>
  For stating which draw a value comes from: the generator state after \<open>k\<close> calls, and the
  draw that the next call returns then.
\<close>

definition rng_skip :: "nat \<Rightarrow> rng \<Rightarrow> rng" where
  "rng_skip k g = g + of_nat k * 0x6d2b79f5"

definition nth_draw :: "rng \<Rightarrow> nat \<Rightarrow> real" where
  "nth_draw g k = fst (rng_call (rng_skip k g))"

text \<open>
  The components, the score and the key marker as the specification words them (for
  comparison only): the four components are the formulas as they are, without the
  two-decimal rounding of the source.
\<close>

definition spec_components :: "bandPowers \<Rightarrow> (string \<times> real) list" where
  "spec_components bp =
     [(''delta'', fmul (fsub (fdiv (delta bp) (dbl 1.2)) 1) 20),
      (''theta'', fmul (fsub (fdiv (theta bp) (dbl 0.7)) 1) 15),
      (''alpha'', fmul (fsub 1 (fdiv (alpha bp) (dbl 1.8))) 35),
      (''gamma'', fmul (fsub (fdiv (gamma bp) (dbl 0.2)) 1) 10)]"

definition spec_score :: "bandPowers \<Rightarrow> int" where
  "spec_score bp =
     min 100 (max 0 (Math_round (fmul (foldl fadd 0 (map snd (spec_components bp))) (dbl 1.2))))"

definition spec_keyMarker :: "bandPowers \<Rightarrow> string" where
  "spec_keyMarker bp = markerMap (keyBand_of (spec_components bp))"

text \<open>
  The band powers the scorer is specified for: doubles, far enough from the largest double
  that no intermediate result overflows.
\<close>

definition double_power :: "real \<Rightarrow> bool" where
  "double_power p = (rd p = p \<and> \<bar>p\<bar> \<le> 2 ^ 1000)"

definition score_domain :: "bandPowers \<Rightarrow> bool" where
  "score_domain bp = list_all double_power [delta bp, theta bp, alpha bp, gamma bp]"

text \<open>Band powers that computeBandPowers returns for the healthy profile at seeds 314 and 3465.\<close>

definition powers_314 :: bandPowers where
  "powers_314 = \<lparr>delta = dbl 1.3784, theta = dbl 0.8028, alpha = dbl 1.9318, beta = dbl 0.4458,
                  gamma = dbl 0.1729\<rparr>"

definition powers_3465 :: bandPowers where
  "powers_3465 = \<lparr>delta = dbl 1.2675, theta = dbl 0.7583, alpha = dbl 1.8693, beta = dbl 0.4541,
                   gamma = dbl 0.2251\<rparr>"

text \<open>Band powers with the alpha power slightly low, and with delta and theta slightly high.\<close>

definition powers_alpha_low :: bandPowers where
  "powers_alpha_low = \<lparr>delta = dbl 1.2, theta = dbl 0.7, alpha = dbl 1.7786, beta = dbl 0.5, gamma = dbl 0.2\<rparr>"

definition powers_near_baseline :: bandPowers where
  "powers_near_baseline = \<lparr>delta = dbl 1.2002, theta = dbl 0.7002, alpha = dbl 1.8, beta = dbl 0.5, gamma = dbl 0.2\<rparr>"

text \<open>Band powers at the literature baselines: every component is zero.\<close>

abbreviation comps_zero :: bandPowers where
  "comps_zero \<equiv> \<lparr>delta = 1.2, theta = 0.7, alpha = 1.8, beta = 0.5, gamma = 0.2\<rparr>"

section \<open>Properties\<close>

text \<open>
  C5. For every integer score, the level returned by classifyRisk is High Risk exactly when
  the score is at least 60, Moderate exactly when it is at least 40 and below 60, and
  Low Risk exactly when it is below 40; at the boundaries 59 gives Moderate, 60 High Risk,
  39 Low Risk and 40 Moderate.
\<close>

theorem classifyRisk_levels:
  "(level (classifyRisk s) = ''High Risk'' \<longleftrightarrow> s \<ge> 60)
   \<and> (level (classifyRisk s) = ''Moderate'' \<longleftrightarrow> 40 \<le> s \<and> s < 60)
   \<and> (level (classifyRisk s) = ''Low Risk'' \<longleftrightarrow> s < 40)
   \<and> level (classifyRisk 59) = ''Moderate''
   \<and> level (classifyRisk 60) = ''High Risk''
   \<and> level (classifyRisk 39) = ''Low Risk''
   \<and> level (classifyRisk 40) = ''Moderate''"
  by (simp add: classifyRisk_def)

theorem classifyRisk_levels_witness:
  "level (classifyRisk 75) = ''High Risk'' \<and> level (classifyRisk 45) = ''Moderate''
   \<and> level (classifyRisk (- 3)) = ''Low Risk''"
  using classifyRisk_levels [of 75] classifyRisk_levels [of 45] classifyRisk_levels [of "- 3"]
  by simp

subsection \<open>Auxiliary facts: PRNG range, key-band reduction\<close>

lemma rng_call_range: "0 \<le> fst (rng_call s) \<and> fst (rng_call s) < 1"
proof -
  have "unat (rng_bits s) < 2 ^ 32"
    using unsigned_less [of "rng_bits s"] by simp
  then have "real (unat (rng_bits s)) < real (2 ^ 32)"
    by (simp only: of_nat_less_iff)
  moreover have "0 \<le> real (unat (rng_bits s))"
    by (rule of_nat_0_le_iff)
  ultimately show ?thesis by (simp add: rng_call_def)
qed

lemma rng_bits_2042: "rng_bits (mulberry32 2042) = 1576733564"
  by (simp add: rng_bits_def mulberry32_def Let_def)

lemma foldl_pick_first_max:
  "\<exists>i<length (a # xs). foldl pick a xs = (a # xs) ! i
      \<and> (\<forall>j<length (a # xs). snd ((a # xs) ! j) \<le> snd ((a # xs) ! i))
      \<and> (\<forall>j<i. snd ((a # xs) ! j) < snd ((a # xs) ! i))"
proof (induction xs rule: rev_induct)
  case Nil
  then show ?case by simp
next
  case (snoc x xs)
  then obtain i where i: "i < length (a # xs)" "foldl pick a xs = (a # xs) ! i"
      "\<forall>j<length (a # xs). snd ((a # xs) ! j) \<le> snd ((a # xs) ! i)"
      "\<forall>j<i. snd ((a # xs) ! j) < snd ((a # xs) ! i)"
    by blast
  let ?ys = "a # xs"
  have app: "a # xs @ [x] = ?ys @ [x]" by simp
  show ?case
  proof (cases "snd x > snd (?ys ! i)")
    case True
    have "foldl pick a (xs @ [x]) = (?ys @ [x]) ! length ?ys"
      using True i(2) by (simp add: pick_def del: nth_append_length length_Cons)
         (simp only: nth_append_length)
    moreover have "\<forall>j<length (?ys @ [x]). snd ((?ys @ [x]) ! j) \<le> snd ((?ys @ [x]) ! length ?ys)"
    proof (intro allI impI)
      fix j assume "j < length (?ys @ [x])"
      then consider "j < length ?ys" | "j = length ?ys" by fastforce
      then show "snd ((?ys @ [x]) ! j) \<le> snd ((?ys @ [x]) ! length ?ys)"
      proof cases
        case 1
        then have "snd (?ys ! j) \<le> snd (?ys ! i)" using i(3) by blast
        with True 1 show ?thesis by (simp only: nth_append nth_append_length if_True) simp
      next
        case 2
        then show ?thesis by simp
      qed
    qed
    moreover have "\<forall>j<length ?ys. snd ((?ys @ [x]) ! j) < snd ((?ys @ [x]) ! length ?ys)"
    proof (intro allI impI)
      fix j assume 1: "j < length ?ys"
      then have "snd (?ys ! j) \<le> snd (?ys ! i)" using i(3) by blast
      with True 1 show "snd ((?ys @ [x]) ! j) < snd ((?ys @ [x]) ! length ?ys)"
        by (simp only: nth_append nth_append_length if_True) simp
    qed
    ultimately show ?thesis
      unfolding app by (intro exI [of _ "length ?ys"]) simp
  next
    case False
    have keep: "(?ys @ [x]) ! i = ?ys ! i"
      using i(1) by (simp only: nth_append if_True)
    have "foldl pick a (xs @ [x]) = ?ys ! i"
      using False i(2) by (simp add: pick_def)
    then have "foldl pick a (xs @ [x]) = (?ys @ [x]) ! i"
      by (simp only: keep)
    moreover have "\<forall>j<length (?ys @ [x]). snd ((?ys @ [x]) ! j) \<le> snd ((?ys @ [x]) ! i)"
    proof (intro allI impI)
      fix j assume "j < length (?ys @ [x])"
      then consider "j < length ?ys" | "j = length ?ys" by fastforce
      then show "snd ((?ys @ [x]) ! j) \<le> snd ((?ys @ [x]) ! i)"
      proof cases
        case 1
        then have "snd (?ys ! j) \<le> snd (?ys ! i)" using i(3) by blast
        with 1 i(1) show ?thesis by (simp only: nth_append if_True)
      next
        case 2
        with False i(1) show ?thesis by (simp only: nth_append nth_append_length if_True) simp
      qed
    qed
    moreover have "\<forall>j<i. snd ((?ys @ [x]) ! j) < snd ((?ys @ [x]) ! i)"
    proof (intro allI impI)
      fix j assume 1: "j < i"
      then have "snd (?ys ! j) < snd (?ys ! i)" using i(4) by blast
      moreover have "j < length ?ys" using 1 i(1) by simp
      ultimately show "snd ((?ys @ [x]) ! j) < snd ((?ys @ [x]) ! i)"
        using i(1) by (simp only: nth_append if_True)
    qed
    moreover have "i < length (?ys @ [x])" using i(1) by simp
    ultimately show ?thesis
      unfolding app by blast
  qed
qed

subsection \<open>Auxiliary facts: evaluating the scorer in double arithmetic\<close>

lemmas rd_eval = rd_def exponent_def exp_hi.simps exp_lo.simps round_even_def Let_def
lemmas fl_eval = rd_eval dbl_def fadd_def fsub_def fmul_def fdiv_def stored_def toFixed_def

lemma score_of_components:
  "score (computeRiskScore bp seed) =
     min 100 (max 0 (Math_round (fmul (foldl fadd 0 (map snd (risk_components bp))) (dbl 1.2))))"
  by (simp add: computeRiskScore_def Let_def)

lemma components_alpha_low:
  "risk_components powers_alpha_low = [(''delta'', 0), (''theta'', 0), (''alpha'', dbl 0.42), (''gamma'', 0)]"
  by (simp add: risk_components_def powers_alpha_low_def fl_eval)

lemma spec_components_alpha_low:
  "map snd (spec_components powers_alpha_low) = [0, 0, 3747995689889465 / 9007199254740992, 0]"
  by (simp add: spec_components_def powers_alpha_low_def fl_eval)

lemma domain_314: "score_domain powers_314"
  by (simp add: score_domain_def double_power_def powers_314_def fl_eval)

lemma components_314:
  "risk_components powers_314 =
     [(''delta'', dbl 2.97), (''theta'', dbl 2.2), (''alpha'', dbl (- 2.56)), (''gamma'', dbl (- 1.36))]"
  by (simp add: risk_components_def powers_314_def fl_eval)

lemma keyBand_of_four:
  "keyBand_of [(a, x), (b, y), (c, z), (d, w)] =
     (if y \<le> x \<and> z \<le> x \<and> w \<le> x then a
      else if z \<le> y \<and> w \<le> y then b
      else if w \<le> z then c else d)"
  by (auto simp: keyBand_of_def pick_def)

lemma domain_3465: "score_domain powers_3465"
  by (simp add: score_domain_def double_power_def powers_3465_def fl_eval)

lemma components_3465:
  "risk_components powers_3465 =
     [(''delta'', dbl 1.13), (''theta'', 1.25), (''alpha'', dbl (- 1.35)), (''gamma'', 1.25)]"
  by (simp add: risk_components_def powers_3465_def fl_eval)

lemma components_near_baseline:
  "risk_components powers_near_baseline = [(''delta'', 0), (''theta'', 0), (''alpha'', 0), (''gamma'', 0)]"
  by (simp add: risk_components_def powers_near_baseline_def fl_eval)

lemma spec_components_near_baseline:
  "spec_components powers_near_baseline =
     [(''delta'', 3752999689475 / 1125899906842624), (''theta'', 9650570630085 / 2251799813685248),
      (''alpha'', 0), (''gamma'', 0)]"
  by (simp add: spec_components_def powers_near_baseline_def fl_eval)

text \<open>
  C1 (amended). For every BandPowers record whose delta, theta, alpha and gamma powers are
  doubles of magnitude at most 2^1000 (so that nothing overflows) and every seed, the score
  of computeRiskScore is the sum of the four components delta (power/1.2 - 1) * 20, theta
  (power/0.7 - 1) * 15, alpha (1 - power/1.8) * 35 and gamma (power/0.2 - 1) * 10, each
  rounded to two decimals before summing, multiplied by 1.2, rounded to the nearest integer
  and clamped to [0,100], every operation in double arithmetic; the score is an integer in
  [0,100].
\<close>

theorem score_formula:
  assumes "score_domain bp"
  shows "score (computeRiskScore bp seed) =
     min 100 (max 0 (Math_round
       (fmul (fadd (fadd (fadd (fadd 0
          (stored 2 (fmul (fsub (fdiv (delta bp) (dbl 1.2)) 1) 20)))
          (stored 2 (fmul (fsub (fdiv (theta bp) (dbl 0.7)) 1) 15)))
          (stored 2 (fmul (fsub 1 (fdiv (alpha bp) (dbl 1.8))) 35)))
          (stored 2 (fmul (fsub (fdiv (gamma bp) (dbl 0.2)) 1) 10)))
        (dbl 1.2))))
   \<and> 0 \<le> score (computeRiskScore bp seed) \<and> score (computeRiskScore bp seed) \<le> 100"
  by (simp add: score_of_components risk_components_def)

theorem score_formula_witness:
  "score_domain powers_314 \<and> score (computeRiskScore powers_314 314) = 1"
proof -
  have "min 100 (max 0 (Math_round (fmul (foldl fadd 0 (map snd (risk_components powers_314))) (dbl 1.2)))) = 1"
    unfolding components_314 by (simp add: fl_eval Math_round_def)
  then have "score (computeRiskScore powers_314 314) = 1"
    using score_formula [OF domain_314, of 314] by (simp add: risk_components_def)
  with domain_314 show ?thesis by simp
qed

text \<open>
  The score is not the rounding of the unrounded sum: with alpha power 1.7786 and the other
  bands at baseline the alpha component 0.4161... is stored as 0.42, so the source returns 1
  where the unrounded sum times 1.2 is 0.4993... and rounds to 0.
\<close>

theorem score_unrounded_counterexample:
  "score (computeRiskScore powers_alpha_low 42) = 1 \<and> spec_score powers_alpha_low = 0"
proof -
  have "score (computeRiskScore powers_alpha_low 42) = 1"
    unfolding score_of_components components_alpha_low
    by (simp add: fl_eval Math_round_def)
  moreover have "spec_score powers_alpha_low = 0"
    unfolding spec_score_def spec_components_alpha_low
    by (simp add: fl_eval Math_round_def)
  ultimately show ?thesis by simp
qed

text \<open>
  C3 (amended). For every BandPowers record and every seed, the confidence of
  computeRiskScore is \<open>Math.round(80 + r * 15)\<close>, where \<open>r\<close> is the first draw of
  the PRNG seeded with seed + 2000, and is an integer in [80,95].
\<close>

theorem confidence_round:
  "confidence (computeRiskScore bp seed) =
      Math_round (80 + fst (rng_call (mulberry32 (seed + 2000))) * 15)
   \<and> 80 \<le> confidence (computeRiskScore bp seed)
   \<and> confidence (computeRiskScore bp seed) \<le> 95"
proof -
  let ?r = "fst (rng_call (mulberry32 (seed + 2000)))"
  have r: "0 \<le> ?r" "?r < 1" using rng_call_range by blast+
  have c: "confidence (computeRiskScore bp seed) = Math_round (80 + ?r * 15)"
    by (simp add: computeRiskScore_def Let_def)
  have "80 \<le> Math_round (80 + ?r * 15)"
    unfolding Math_round_def using r(1) by (simp add: le_floor_iff)
  moreover have "Math_round (80 + ?r * 15) \<le> 95"
    unfolding Math_round_def using r(2) by (simp add: floor_le_iff)
  ultimately show ?thesis using c by simp
qed

theorem confidence_round_witness:
  "confidence (computeRiskScore comps_zero 42) = 86"
  using confidence_round [of comps_zero 42]
  by (simp add: rng_call_def rng_bits_2042 Math_round_def)

text \<open>
  The confidence is rounded to nearest, not floored: for seed 42 the first draw of the PRNG
  seeded with 2042 is 1576733564 / 2^32, fifteen times that is 5.506..., and the source
  returns 86 where 80 + floor gives 85.
\<close>

theorem confidence_floor_counterexample:
  "confidence (computeRiskScore comps_zero 42) = 86
   \<and> 80 + \<lfloor>fst (rng_call (mulberry32 (42 + 2000))) * 15\<rfloor> = 85"
  by (simp add: computeRiskScore_def Let_def rng_call_def rng_bits_2042 Math_round_def)

text \<open>
  C4 (amended). For every BandPowers record in the same domain and every seed, the components
  that computeRiskScore returns and compares are the four formulas rounded to two decimals,
  and the keyMarker is the label, from the table delta, theta, alpha, gamma to their four
  phrases, of the first band in the order delta, theta, alpha, gamma whose rounded component
  is the maximum of the four: the left-to-right reduction with strict-greater comparison
  keeps the first-seen maximum on a tie.
\<close>

theorem keyMarker_first_max:
  assumes "score_domain bp"
  shows "(let cd = stored 2 (fmul (fsub (fdiv (delta bp) (dbl 1.2)) 1) 20);
           ct = stored 2 (fmul (fsub (fdiv (theta bp) (dbl 0.7)) 1) 15);
           ca = stored 2 (fmul (fsub 1 (fdiv (alpha bp) (dbl 1.8))) 35);
           cg = stored 2 (fmul (fsub (fdiv (gamma bp) (dbl 0.2)) 1) 10)
       in components (computeRiskScore bp seed)
            = [(''delta'', cd), (''theta'', ct), (''alpha'', ca), (''gamma'', cg)]
          \<and> keyMarker (computeRiskScore bp seed) =
              (if ct \<le> cd \<and> ca \<le> cd \<and> cg \<le> cd then u_delta @ '' Elevation''
               else if ca \<le> ct \<and> cg \<le> ct then u_theta @ '' Elevation''
               else if cg \<le> ca then u_alpha @ '' Suppression''
               else u_gamma @ '' Dysregulation''))"
proof -
  have c: "components (computeRiskScore bp seed) = risk_components bp"
    and k: "keyMarker (computeRiskScore bp seed) = markerMap (keyBand_of (risk_components bp))"
    by (simp_all add: computeRiskScore_def Let_def)
  show ?thesis
    unfolding c k Let_def risk_components_def keyBand_of_four
    by (simp add: markerMap_def)
qed

theorem keyMarker_first_max_witness:
  "score_domain powers_3465
   \<and> components (computeRiskScore powers_3465 3465)
       = [(''delta'', dbl 1.13), (''theta'', 1.25), (''alpha'', dbl (- 1.35)), (''gamma'', 1.25)]
   \<and> keyMarker (computeRiskScore powers_3465 3465) = u_theta @ '' Elevation''"
proof -
  have v: "stored 2 (fmul (fsub (fdiv (delta powers_3465) (dbl 1.2)) 1) 20) = dbl 1.13"
    "stored 2 (fmul (fsub (fdiv (theta powers_3465) (dbl 0.7)) 1) 15) = 1.25"
    "stored 2 (fmul (fsub 1 (fdiv (alpha powers_3465) (dbl 1.8))) 35) = dbl (- 1.35)"
    "stored 2 (fmul (fsub (fdiv (gamma powers_3465) (dbl 0.2)) 1) 10) = 1.25"
    using components_3465 by (simp_all add: risk_components_def)
  have o: "dbl 1.13 < 1.25" "dbl (- 1.35) < 1.25"
    by (simp_all add: fl_eval)
  show ?thesis
    using keyMarker_first_max [OF domain_3465, of 3465] domain_3465 o
    unfolding v Let_def by simp
qed

text \<open>
  The components compared are not the unrounded formulas: with delta power 1.2002 and theta
  power 0.7002 the unrounded theta component 0.0043 exceeds the delta component 0.0033, but
  both are stored as 0.00 and the source returns the first of the tie, delta.
\<close>

theorem keyMarker_unrounded_counterexample:
  "keyMarker (computeRiskScore powers_near_baseline 42) = u_delta @ '' Elevation''
   \<and> spec_keyMarker powers_near_baseline = u_theta @ '' Elevation''"
proof -
  have "keyMarker (computeRiskScore powers_near_baseline 42)
          = markerMap (keyBand_of (risk_components powers_near_baseline))"
    by (simp add: computeRiskScore_def Let_def)
  then have "keyMarker (computeRiskScore powers_near_baseline 42) = u_delta @ '' Elevation''"
    unfolding components_near_baseline keyBand_of_four by (simp add: markerMap_def)
  moreover have "spec_keyMarker powers_near_baseline = u_theta @ '' Elevation''"
    unfolding spec_keyMarker_def spec_components_near_baseline keyBand_of_four
    by (simp add: markerMap_def)
  ultimately show ?thesis by simp
qed

subsection \<open>Auxiliary facts: CSV rows and lines\<close>

lemmas csv_eval = trim_def is_ws_def toLowerCase_def toLowerCase_char_def upper_chars_def
  lower_chars_def requiredCols_def parseFloat_cell_def parseFloat_def parse_unsigned_def
  parse_exponent_def is_digit_def digits_val_def isNaN_def

lemma csv_one_row_lines: "csv_lines csv_one_row = [''time,Fp1,F3,C3,P3,O1'', ''0,1,2,3,4,5'']"
  by (simp add: csv_lines_def csv_one_row_def trim_def is_ws_def)

lemma csv_one_row_header:
  "csv_header [''time,Fp1,F3,C3,P3,O1'', ''0,1,2,3,4,5''] = [''time'', ''fp1'', ''f3'', ''c3'', ''p3'', ''o1'']"
  by (simp add: csv_header_def csv_eval)

lemma csv_one_row_signal:
  "csv_signal [''time,Fp1,F3,C3,P3,O1'', ''0,1,2,3,4,5''] =
     [\<lparr> time = Finite 0, Fp1 = Finite 1, F3 = Finite 2, C3 = Finite 3, P3 = Finite 4, O1 = Finite 5 \<rparr>]"
  unfolding csv_signal_def csv_one_row_header
  by (simp add: parse_row_def csv_eval)

lemma indexOf_nonneg: "x \<in> set ys \<Longrightarrow> 0 \<le> indexOf ys x"
  by (induction ys) (auto simp: Let_def)

lemma indexOf_less: "x \<in> set ys \<Longrightarrow> nat (indexOf ys x) < length ys"
proof (induction ys)
  case Nil
  then show ?case by simp
next
  case (Cons y ys)
  show ?case
  proof (cases "y = x")
    case True
    then show ?thesis by simp
  next
    case False
    with Cons.prems have mem: "x \<in> set ys" by simp
    from indexOf_nonneg [OF mem] Cons.IH [OF mem] False show ?thesis
      by (simp add: Let_def nat_add_distrib)
  qed
qed

lemma parseFloat_cell_in_range:
  assumes "col \<in> set header" and "length header \<le> length (row_cells line)"
  shows "parseFloat_cell (row_cells line) (indexOf header col) = required_cell header line col"
proof -
  have "nat (indexOf header col) < length (row_cells line)"
    using indexOf_less [OF assms(1)] assms(2) by simp
  then show ?thesis
    using indexOf_nonneg [OF assms(1)] by (simp add: parseFloat_cell_def required_cell_def)
qed

lemma missing_cols_empty:
  "missing_cols header = [] \<longleftrightarrow> set requiredCols \<subseteq> set header"
  by (auto simp: missing_cols_def filter_empty_conv)

lemma parse_row_kept:
  assumes "set requiredCols \<subseteq> set header"
  shows "parse_row (length header) (indexOf header) line =
           (if row_kept header line then Some (row_sample header line) else None)"
proof (cases "length header \<le> length (row_cells line)")
  case False
  then show ?thesis by (simp add: parse_row_def row_kept_def row_cells_def)
next
  case True
  have cell: "parseFloat_cell (map trim (split_on CHR '','' line)) (indexOf header col)
                = required_cell header line col" if "col \<in> set requiredCols" for col
    using parseFloat_cell_in_range [of col header line] that assms True
    by (auto simp: row_cells_def)
  have c: "parseFloat_cell (map trim (split_on CHR '','' line)) (indexOf header ''time'') = required_cell header line ''time''"
    "parseFloat_cell (map trim (split_on CHR '','' line)) (indexOf header ''fp1'') = required_cell header line ''fp1''"
    "parseFloat_cell (map trim (split_on CHR '','' line)) (indexOf header ''f3'') = required_cell header line ''f3''"
    "parseFloat_cell (map trim (split_on CHR '','' line)) (indexOf header ''c3'') = required_cell header line ''c3''"
    "parseFloat_cell (map trim (split_on CHR '','' line)) (indexOf header ''p3'') = required_cell header line ''p3''"
    "parseFloat_cell (map trim (split_on CHR '','' line)) (indexOf header ''o1'') = required_cell header line ''o1''"
    by (rule cell, simp add: requiredCols_def)+
  from True have len: "\<not> length (map trim (split_on CHR '','' line)) < length header"
    by (simp add: row_cells_def)
  show ?thesis
    unfolding parse_row_def Let_def c if_not_P [OF len]
    using True by (simp add: row_kept_def row_sample_def requiredCols_def isNaN_def)
qed

lemma parse_rows_filter:
  assumes "set requiredCols \<subseteq> set header"
  shows "parse_rows (length header) (indexOf header) ls =
           map (row_sample header) (filter (row_kept header) ls)"
  by (induction ls) (simp_all add: parse_row_kept [OF assms])

lemma split_lines_no_LF: "CHR 0x0A \<notin> set l \<Longrightarrow> split_lines l = [l]"
  by (induction l rule: split_lines.induct) auto

lemma split_lines_LF: "split_lines (CHR 0x0A # rest) = [] # split_lines rest"
  by (cases rest) auto

lemma split_lines_line:
  "CHR 0x0A \<notin> set l \<Longrightarrow> CHR 0x0D \<notin> set l \<Longrightarrow>
   split_lines (l @ CHR 0x0A # rest) = l # split_lines rest"
proof (induction l rule: split_lines.induct)
  case 1
  then show ?case by (cases rest) auto
next
  case (2 c)
  then show ?case by (auto simp: split_lines_LF)
next
  case (3 c d cs)
  then show ?case by auto
qed

lemma split_lines_replicate:
  assumes "CHR 0x0A \<notin> set row" "CHR 0x0D \<notin> set row"
  shows "CHR 0x0A \<notin> set l \<Longrightarrow> CHR 0x0D \<notin> set l \<Longrightarrow>
         split_lines (l @ concat (replicate n (CHR 0x0A # row))) = l # replicate n row"
proof (induction n arbitrary: l)
  case 0
  then show ?case by (simp add: split_lines_no_LF)
next
  case (Suc n)
  have "split_lines (l @ CHR 0x0A # (row @ concat (replicate n (CHR 0x0A # row))))
          = l # split_lines (row @ concat (replicate n (CHR 0x0A # row)))"
    using Suc.prems by (rule split_lines_line)
  also have "\<dots> = l # row # replicate n row"
    using Suc.IH [OF assms] by simp
  finally show ?case by simp
qed

lemma trim_id: "s \<noteq> [] \<Longrightarrow> \<not> is_ws (hd s) \<Longrightarrow> \<not> is_ws (last s) \<Longrightarrow> trim s = s"
proof -
  assume a: "s \<noteq> []" "\<not> is_ws (hd s)" "\<not> is_ws (last s)"
  then have 1: "dropWhile is_ws s = s" by (cases s) auto
  from a have "\<not> is_ws (hd (rev s))" by (simp add: hd_rev)
  with a(1) have 2: "dropWhile is_ws (rev s) = rev s" by (cases "rev s") auto
  show ?thesis by (simp add: trim_def 1 2)
qed

lemma last_concat_replicate:
  "xs \<noteq> [] \<Longrightarrow> 0 < n \<Longrightarrow> last (ys @ concat (replicate n xs)) = last xs"
proof (induction n arbitrary: ys)
  case 0
  then show ?case by simp
next
  case (Suc n)
  show ?case
  proof (cases "n = 0")
    case True
    with Suc.prems show ?thesis by simp
  next
    case False
    then have "last ((ys @ xs) @ concat (replicate n xs)) = last xs"
      using Suc.IH [of "ys @ xs"] Suc.prems(1) by simp
    then show ?thesis by simp
  qed
qed

lemma parse_rows_replicate:
  "parse_row hl ci row = Some s \<Longrightarrow> parse_rows hl ci (replicate n row) = replicate n s"
  by (induction n) simp_all

lemma csv_wide_rows_lines:
  "csv_lines csv_wide_rows =
     ''time,Fp1,F3,C3,P3,O1,note'' # replicate 128 ''0,1,2,3,4,5,abc,extra''"
proof -
  have t: "trim csv_wide_rows = csv_wide_rows"
    by (rule trim_id) (simp_all add: csv_wide_rows_def is_ws_def last_concat_replicate [where ys = "[]", simplified])
  have sl: "split_lines csv_wide_rows =
          ''time,Fp1,F3,C3,P3,O1,note'' # replicate 128 ''0,1,2,3,4,5,abc,extra''"
    unfolding csv_wide_rows_def by (rule split_lines_replicate) simp_all
  have f: "filter (\<lambda>l. trim l \<noteq> [])
             (''time,Fp1,F3,C3,P3,O1,note'' # replicate 128 ''0,1,2,3,4,5,abc,extra'')
           = ''time,Fp1,F3,C3,P3,O1,note'' # replicate 128 ''0,1,2,3,4,5,abc,extra''"
    by (simp add: trim_def is_ws_def)
  show ?thesis
    unfolding csv_lines_def t sl f ..
qed

lemma csv_wide_rows_header:
  "csv_header (''time,Fp1,F3,C3,P3,O1,note'' # ls) =
     [''time'', ''fp1'', ''f3'', ''c3'', ''p3'', ''o1'', ''note'']"
  by (simp add: csv_header_def csv_eval)

lemma csv_wide_rows_row:
  "parse_row (length [''time'', ''fp1'', ''f3'', ''c3'', ''p3'', ''o1'', ''note''])
     (indexOf [''time'', ''fp1'', ''f3'', ''c3'', ''p3'', ''o1'', ''note'']) ''0,1,2,3,4,5,abc,extra''
     = Some \<lparr> time = Finite 0, Fp1 = Finite 1, F3 = Finite 2, C3 = Finite 3, P3 = Finite 4, O1 = Finite 5 \<rparr>"
  by (simp add: parse_row_def csv_eval)

lemma csv_wide_rows_parsed:
  "parseCSV csv_wide_rows =
     Inr (replicate 128 \<lparr> time = Finite 0, Fp1 = Finite 1, F3 = Finite 2, C3 = Finite 3, P3 = Finite 4, O1 = Finite 5 \<rparr>)"
proof -
  have "csv_signal (csv_lines csv_wide_rows) =
          replicate 128 \<lparr> time = Finite 0, Fp1 = Finite 1, F3 = Finite 2, C3 = Finite 3, P3 = Finite 4, O1 = Finite 5 \<rparr>"
    unfolding csv_signal_def csv_wide_rows_lines csv_wide_rows_header list.sel
    by (rule parse_rows_replicate [OF csv_wide_rows_row])
  moreover have "missing_cols (csv_header (csv_lines csv_wide_rows)) = []"
    by (simp add: csv_wide_rows_lines csv_wide_rows_header missing_cols_def requiredCols_def)
  moreover have "length (csv_lines csv_wide_rows) = 129"
    by (simp add: csv_wide_rows_lines)
  ultimately show ?thesis
    by (simp add: parseCSV_def Let_def)
qed

text \<open>
  C6. For every CSV text with at least two non-blank lines, a header that contains the six
  required columns, and between 1 and 127 valid data rows after filtering, parseCSV returns
  no signal but the too-short error, whose message states the number of valid rows and the
  minimum of 128. The header line followed by the single row 0,1,2,3,4,5 is such an input.
\<close>

theorem parseCSV_too_short:
  assumes "2 \<le> length (csv_lines text)"
    and "missing_cols (csv_header (csv_lines text)) = []"
    and "1 \<le> length (csv_signal (csv_lines text))"
    and "length (csv_signal (csv_lines text)) \<le> 127"
  shows "parseCSV text =
           Inl (''CSV too short ('' @ show_nat (length (csv_signal (csv_lines text)))
                @ '' rows). Need at least 128 data rows (~0.5 seconds at 256Hz) for accurate frequency analysis.'')"
proof -
  from assms(3) have "csv_signal (csv_lines text) \<noteq> []" by auto
  with assms show ?thesis by (simp add: parseCSV_def Let_def)
qed

theorem parseCSV_too_short_witness:
  "parseCSV csv_one_row =
     Inl ''CSV too short (1 rows). Need at least 128 data rows (~0.5 seconds at 256Hz) for accurate frequency analysis.''"
  using parseCSV_too_short [of csv_one_row]
  unfolding csv_one_row_lines csv_one_row_signal csv_one_row_header
  by (simp add: missing_cols_def requiredCols_def show_nat.simps digit_char_def)

text \<open>
  C10. When the text has a header with the six required columns, parseCSV returns a signal
  exactly when at least 128 data rows are kept, and the signal is then the kept rows in order,
  where a row is kept if and only if it has at least as many comma-separated cells as the
  header and its six required cells parse to numbers. Cells beyond the header and the
  contents of columns that are not required play no part: only a row with fewer cells than
  the header, or with a required cell that does not parse, is dropped.
\<close>

theorem parseCSV_keeps_rows:
  assumes "2 \<le> length (csv_lines text)"
    and "missing_cols (csv_header (csv_lines text)) = []"
  shows "parseCSV text = Inr sig \<longleftrightarrow>
           sig = map (row_sample (csv_header (csv_lines text)))
                     (filter (row_kept (csv_header (csv_lines text))) (tl (csv_lines text)))
           \<and> 128 \<le> length (filter (row_kept (csv_header (csv_lines text))) (tl (csv_lines text)))"
proof -
  let ?h = "csv_header (csv_lines text)"
  have req: "set requiredCols \<subseteq> set ?h"
    using assms(2) by (simp add: missing_cols_empty)
  have sig: "csv_signal (csv_lines text) = map (row_sample ?h) (filter (row_kept ?h) (tl (csv_lines text)))"
    unfolding csv_signal_def by (rule parse_rows_filter [OF req])
  show ?thesis
    using assms by (auto simp: parseCSV_def Let_def sig)
qed

theorem parseCSV_keeps_rows_witness:
  "parseCSV csv_wide_rows =
     Inr (replicate 128 \<lparr> time = Finite 0, Fp1 = Finite 1, F3 = Finite 2, C3 = Finite 3, P3 = Finite 4, O1 = Finite 5 \<rparr>)
   \<and> 128 \<le> length (filter (row_kept (csv_header (csv_lines csv_wide_rows))) (tl (csv_lines csv_wide_rows)))
   \<and> length (row_cells ''0,1,2,3,4,5,abc,extra'') = 8
   \<and> length (csv_header (csv_lines csv_wide_rows)) = 7
   \<and> parseFloat ''abc'' = NaN"
proof -
  have l: "2 \<le> length (csv_lines csv_wide_rows)"
    by (simp add: csv_wide_rows_lines)
  have m: "missing_cols (csv_header (csv_lines csv_wide_rows)) = []"
    by (simp add: csv_wide_rows_lines csv_wide_rows_header missing_cols_def requiredCols_def)
  have "128 \<le> length (filter (row_kept (csv_header (csv_lines csv_wide_rows))) (tl (csv_lines csv_wide_rows)))"
    using parseCSV_keeps_rows [OF l m] csv_wide_rows_parsed by blast
  moreover have "length (row_cells ''0,1,2,3,4,5,abc,extra'') = 8"
    by (simp add: row_cells_def)
  moreover have "length (csv_header (csv_lines csv_wide_rows)) = 7"
    by (simp add: csv_wide_rows_lines csv_wide_rows_header)
  moreover have "parseFloat ''abc'' = NaN"
    by (simp add: csv_eval)
  ultimately show ?thesis using csv_wide_rows_parsed by simp
qed

subsection \<open>Auxiliary facts: the stable sort by absolute value\<close>

lemma insort_cmp_length: "length (insort_cmp cmp x ys) = Suc (length ys)"
  by (induction ys) simp_all

lemma js_sort_length: "length (js_sort cmp xs) = length xs"
  by (induction xs) (simp_all add: js_sort_def insort_cmp_length)

lemma insort_cmp_set: "set (insort_cmp cmp x ys) = insert x (set ys)"
  by (induction ys) auto

lemma insort_by_abs_sorted:
  "sorted_wrt (\<lambda>a b. \<bar>shap_value b\<bar> \<le> \<bar>shap_value a\<bar>) ys \<Longrightarrow>
   sorted_wrt (\<lambda>a b. \<bar>shap_value b\<bar> \<le> \<bar>shap_value a\<bar>) (insort_cmp by_abs_desc x ys)"
proof (induction ys)
  case Nil
  then show ?case by simp
next
  case (Cons y ys)
  show ?case
  proof (cases "by_abs_desc x y \<le> 0")
    case True
    then have xy: "\<bar>shap_value y\<bar> \<le> \<bar>shap_value x\<bar>" by (simp add: by_abs_desc_def)
    have "\<forall>z\<in>set ys. \<bar>shap_value z\<bar> \<le> \<bar>shap_value x\<bar>"
      using Cons.prems xy by fastforce
    with True xy Cons.prems show ?thesis by simp
  next
    case False
    then have yx: "\<bar>shap_value x\<bar> \<le> \<bar>shap_value y\<bar>" by (simp add: by_abs_desc_def)
    with False Cons show ?thesis by (auto simp: insort_cmp_set)
  qed
qed

lemma js_sort_by_abs_sorted:
  "sorted_wrt (\<lambda>a b. \<bar>shap_value b\<bar> \<le> \<bar>shap_value a\<bar>) (js_sort by_abs_desc xs)"
  by (induction xs) (simp_all add: js_sort_def insort_by_abs_sorted)

lemma map_rng_length: "length (fst (map_rng f xs g)) = length xs"
  by (induction xs arbitrary: g) (simp_all add: Let_def case_prod_beta)

text \<open>
  C7. For every pathology flag and seed (simulated mode) and for every BandPowers record
  (measured mode), the attribution generator returns a list of exactly 15 entries, sorted in
  non-increasing order of absolute value.
\<close>

theorem shap_sorted_15:
  "length (generateSHAPValues isSZ seed) = 15
   \<and> sorted_wrt (\<lambda>a b. \<bar>shap_value a\<bar> \<ge> \<bar>shap_value b\<bar>) (generateSHAPValues isSZ seed)
   \<and> length (generateSHAPFromBandPowers bp) = 15
   \<and> sorted_wrt (\<lambda>a b. \<bar>shap_value a\<bar> \<ge> \<bar>shap_value b\<bar>) (generateSHAPFromBandPowers bp)"
proof -
  have "length features = 15" by (simp add: features_def)
  then show ?thesis
    by (simp add: generateSHAPValues_def generateSHAPFromBandPowers_def Let_def
          js_sort_length map_rng_length js_sort_by_abs_sorted)
qed

theorem shap_sorted_15_witness:
  "length (generateSHAPValues True 42) = 15
   \<and> sorted_wrt (\<lambda>a b. \<bar>shap_value a\<bar> \<ge> \<bar>shap_value b\<bar>) (generateSHAPFromBandPowers comps_zero)"
  using shap_sorted_15 [of True 42 comps_zero] by simp

subsection \<open>Auxiliary facts: rounding error, band powers of small and constant signals\<close>






















subsection \<open>Auxiliary facts: the draws of the signal generator\<close>

lemma rng_call_eq: "rng_call g = (nth_draw g 0, rng_skip 1 g)"
  by (simp add: rng_call_def nth_draw_def rng_skip_def)

lemma rng_skip_skip: "rng_skip a (rng_skip b g) = rng_skip (a + b) g"
  by (simp add: rng_skip_def algebra_simps)

lemma nth_draw_skip: "nth_draw (rng_skip b g) a = nth_draw g (a + b)"
  by (simp add: nth_draw_def rng_skip_skip)

lemma sz_branch_eq:
  "sz_branch (d, t, a, gm) g =
     ((d * (1.8 + nth_draw g 0 * 0.7), t * (1.5 + nth_draw g 1 * 0.5),
       a * (0.3 + nth_draw g 2 * 0.3), gm * (1.5 + nth_draw g 3 * 0.7)), rng_skip 4 g)"
  by (simp add: sz_branch_def rng_call_eq rng_skip_skip nth_draw_skip eval_nat_numeral)

lemma healthy_branch_eq: "healthy_branch amps g = (amps, rng_skip 4 g)"
  by (simp add: healthy_branch_def rng_call_eq rng_skip_skip Let_def eval_nat_numeral)

lemma channel_params_eq:
  "channel_params isSZ ch g =
     (\<lparr> dA = (0.5 + nth_draw g 0 * 1.0) * (if isSZ then 1.8 + nth_draw g 5 * 0.7 else 1),
        tA = (0.3 + nth_draw g 1 * 0.5) * (if isSZ then 1.5 + nth_draw g 6 * 0.5 else 1),
        aA = (0.8 + nth_draw g 2 * 1.2) * (if isSZ then 0.3 + nth_draw g 7 * 0.3 else 1),
        bA = 0.2 + nth_draw g 3 * 0.4,
        gA = (0.1 + nth_draw g 4 * 0.2) * (if isSZ then 1.5 + nth_draw g 8 * 0.7 else 1),
        dP = nth_draw g 9 * 2 * pi, tP = nth_draw g 10 * 2 * pi, aP = nth_draw g 11 * 2 * pi,
        bP = nth_draw g 12 * 2 * pi, gP = nth_draw g 13 * 2 * pi \<rparr>, rng_skip 14 g)"
  by (simp add: channel_params_def rng_call_eq rng_skip_skip nth_draw_skip sz_branch_eq healthy_branch_eq eval_nat_numeral)

lemma setup_params_eq:
  "setup_params isSZ seed =
     (map (\<lambda>c. fst (channel_params isSZ [] (rng_skip (14 * c) (mulberry32 seed)))) [0, 1, 2, 3, 4],
      rng_skip 70 (mulberry32 seed))"
  by (simp add: setup_params_def channels_def channel_params_eq rng_skip_skip nth_draw_skip eval_nat_numeral)

lemma channel_value_eq:
  "channel_value params t ci g = (wave (params ! ci) t + (nth_draw g 0 - 0.5) * 0.6, rng_skip 1 g)"
  by (simp add: channel_value_def rng_call_eq)

lemma make_point_eq:
  "make_point params i g =
     (\<lparr> time = toFixed 4 (real i / 256),
        Fp1 = wave (params ! 0) (real i / 256) + (nth_draw g 0 - 0.5) * 0.6,
        F3 = wave (params ! 1) (real i / 256) + (nth_draw g 1 - 0.5) * 0.6,
        C3 = wave (params ! 2) (real i / 256) + (nth_draw g 2 - 0.5) * 0.6,
        P3 = wave (params ! 3) (real i / 256) + (nth_draw g 3 - 0.5) * 0.6,
        O1 = wave (params ! 4) (real i / 256) + (nth_draw g 4 - 0.5) * 0.6 \<rparr>, rng_skip 5 g)"
  by (simp add: make_point_def channel_value_eq rng_skip_skip nth_draw_skip eval_nat_numeral Let_def)

lemma signal_loop_length: "length (signal_loop params i n g) = n"
  by (induction n arbitrary: i g) (simp_all add: make_point_eq)

lemma signal_loop_nth:
  "j < n \<Longrightarrow> signal_loop params i n g ! j = fst (make_point params (i + j) (rng_skip (5 * j) g))"
proof (induction n arbitrary: i j g)
  case 0
  then show ?case by simp
next
  case (Suc n)
  show ?case
  proof (cases j)
    case 0
    then show ?thesis by (simp add: make_point_eq rng_skip_def)
  next
    case (Suc j')
    with Suc.prems have "j' < n" by simp
    from Suc.IH [OF this, of "Suc i" "rng_skip 5 g"] Suc show ?thesis
      by (simp add: make_point_eq rng_skip_skip nth_draw_skip add.commute)
  qed
qed

lemma generateEEGSignal_eq:
  "generateEEGSignal isSZ seed =
     signal_loop (fst (setup_params isSZ seed)) 0 1280 (rng_skip 70 (mulberry32 seed))"
  by (simp add: generateEEGSignal_def setup_params_eq)

lemma generateEEGSignal_nth:
  assumes "i < 1280"
  shows "generateEEGSignal isSZ seed ! i =
     \<lparr> time = toFixed 4 (real i / 256),
       Fp1 = wave (fst (setup_params isSZ seed) ! 0) (real i / 256)
               + (nth_draw (mulberry32 seed) (70 + 5 * i) - 0.5) * 0.6,
       F3 = wave (fst (setup_params isSZ seed) ! 1) (real i / 256)
               + (nth_draw (mulberry32 seed) (70 + 5 * i + 1) - 0.5) * 0.6,
       C3 = wave (fst (setup_params isSZ seed) ! 2) (real i / 256)
               + (nth_draw (mulberry32 seed) (70 + 5 * i + 2) - 0.5) * 0.6,
       P3 = wave (fst (setup_params isSZ seed) ! 3) (real i / 256)
               + (nth_draw (mulberry32 seed) (70 + 5 * i + 3) - 0.5) * 0.6,
       O1 = wave (fst (setup_params isSZ seed) ! 4) (real i / 256)
               + (nth_draw (mulberry32 seed) (70 + 5 * i + 4) - 0.5) * 0.6 \<rparr>"
proof -
  have "generateEEGSignal isSZ seed ! i =
          fst (make_point (fst (setup_params isSZ seed)) i (rng_skip (5 * i) (rng_skip 70 (mulberry32 seed))))"
    unfolding generateEEGSignal_eq using signal_loop_nth [OF assms, of _ 0] by simp
  then show ?thesis
    by (simp add: make_point_eq nth_draw_skip add.commute add.left_commute)
qed

lemma setup_params_amplitudes:
  assumes "c < 5"
  shows "dA (fst (setup_params True seed) ! c)
           = dA (fst (setup_params False seed) ! c) * (1.8 + nth_draw (mulberry32 seed) (14 * c + 5) * 0.7)
       \<and> tA (fst (setup_params True seed) ! c)
           = tA (fst (setup_params False seed) ! c) * (1.5 + nth_draw (mulberry32 seed) (14 * c + 6) * 0.5)
       \<and> aA (fst (setup_params True seed) ! c)
           = aA (fst (setup_params False seed) ! c) * (0.3 + nth_draw (mulberry32 seed) (14 * c + 7) * 0.3)
       \<and> gA (fst (setup_params True seed) ! c)
           = gA (fst (setup_params False seed) ! c) * (1.5 + nth_draw (mulberry32 seed) (14 * c + 8) * 0.7)"
proof -
  have "fst (setup_params b seed) ! c = fst (channel_params b [] (rng_skip (14 * c) (mulberry32 seed)))" for b
  proof -
    from assms consider "c = 0" | "c = 1" | "c = 2" | "c = 3" | "c = 4" by linarith
    then show ?thesis
      by cases (simp_all add: setup_params_eq)
  qed
  then show ?thesis
    by (simp add: channel_params_eq nth_draw_skip add.commute)
qed

text \<open>
  C8. For every seed, generateEEGSignal with the flag set and with the flag unset consume the
  same number of PRNG draws in the per-channel setup: 14 for each of the five channels, the
  four multiplier draws of the pathology branch being matched by four discarded draws in the
  other branch, so the generator is in the same state when the sample loop starts. The
  phase offsets (and the beta amplitude) of every channel are the same for both flags, each
  of the 1280 samples carries the same time and, on every channel, the same noise value
  (the draw 70 + 5 i + c for sample i and channel c), and only the delta, theta, alpha and
  gamma amplitudes differ, by the multipliers of the pathology branch.
\<close>

theorem generateEEGSignal_branch_invariance:
  "snd (setup_params True seed) = snd (setup_params False seed)
   \<and> snd (setup_params isSZ seed) = rng_skip (5 * 14) (mulberry32 seed)
   \<and> map dP (fst (setup_params True seed)) = map dP (fst (setup_params False seed))
   \<and> map tP (fst (setup_params True seed)) = map tP (fst (setup_params False seed))
   \<and> map aP (fst (setup_params True seed)) = map aP (fst (setup_params False seed))
   \<and> map bP (fst (setup_params True seed)) = map bP (fst (setup_params False seed))
   \<and> map gP (fst (setup_params True seed)) = map gP (fst (setup_params False seed))
   \<and> map bA (fst (setup_params True seed)) = map bA (fst (setup_params False seed))
   \<and> (\<forall>c<5.
         dA (fst (setup_params True seed) ! c)
           = dA (fst (setup_params False seed) ! c) * (1.8 + nth_draw (mulberry32 seed) (14 * c + 5) * 0.7)
       \<and> tA (fst (setup_params True seed) ! c)
           = tA (fst (setup_params False seed) ! c) * (1.5 + nth_draw (mulberry32 seed) (14 * c + 6) * 0.5)
       \<and> aA (fst (setup_params True seed) ! c)
           = aA (fst (setup_params False seed) ! c) * (0.3 + nth_draw (mulberry32 seed) (14 * c + 7) * 0.3)
       \<and> gA (fst (setup_params True seed) ! c)
           = gA (fst (setup_params False seed) ! c) * (1.5 + nth_draw (mulberry32 seed) (14 * c + 8) * 0.7))
   \<and> length (generateEEGSignal isSZ seed) = 1280
   \<and> (\<forall>i<1280. generateEEGSignal isSZ seed ! i =
         \<lparr> time = toFixed 4 (real i / 256),
           Fp1 = wave (fst (setup_params isSZ seed) ! 0) (real i / 256)
                   + (nth_draw (mulberry32 seed) (70 + 5 * i) - 0.5) * 0.6,
           F3 = wave (fst (setup_params isSZ seed) ! 1) (real i / 256)
                   + (nth_draw (mulberry32 seed) (70 + 5 * i + 1) - 0.5) * 0.6,
           C3 = wave (fst (setup_params isSZ seed) ! 2) (real i / 256)
                   + (nth_draw (mulberry32 seed) (70 + 5 * i + 2) - 0.5) * 0.6,
           P3 = wave (fst (setup_params isSZ seed) ! 3) (real i / 256)
                   + (nth_draw (mulberry32 seed) (70 + 5 * i + 3) - 0.5) * 0.6,
           O1 = wave (fst (setup_params isSZ seed) ! 4) (real i / 256)
                   + (nth_draw (mulberry32 seed) (70 + 5 * i + 4) - 0.5) * 0.6 \<rparr>)"
proof -
  have st: "snd (setup_params b seed) = rng_skip (5 * 14) (mulberry32 seed)" for b
    by (simp add: setup_params_eq)
  have ph: "map dP (fst (setup_params True seed)) = map dP (fst (setup_params False seed))"
    "map tP (fst (setup_params True seed)) = map tP (fst (setup_params False seed))"
    "map aP (fst (setup_params True seed)) = map aP (fst (setup_params False seed))"
    "map bP (fst (setup_params True seed)) = map bP (fst (setup_params False seed))"
    "map gP (fst (setup_params True seed)) = map gP (fst (setup_params False seed))"
    "map bA (fst (setup_params True seed)) = map bA (fst (setup_params False seed))"
    by (simp_all add: setup_params_eq channel_params_eq)
  have len: "length (generateEEGSignal isSZ seed) = 1280"
    by (simp add: generateEEGSignal_eq signal_loop_length)
  show ?thesis
    using st [of True] st [of False] st [of isSZ] ph len
      setup_params_amplitudes [of _ seed] generateEEGSignal_nth [of _ isSZ seed]
    by (intro conjI allI impI) (simp_all only:)
qed

theorem generateEEGSignal_branch_invariance_witness:
  "snd (setup_params True 42) = snd (setup_params False 42)
   \<and> Fp1 (generateEEGSignal True 42 ! 0) - wave (fst (setup_params True 42) ! 0) 0
       = Fp1 (generateEEGSignal False 42 ! 0) - wave (fst (setup_params False 42) ! 0) 0
   \<and> length (generateEEGSignal True 42) = 1280"
proof -
  have z: "(0::nat) < 1280" by simp
  have "Fp1 (generateEEGSignal b 42 ! 0) - wave (fst (setup_params b 42) ! 0) 0
          = (nth_draw (mulberry32 42) 70 - 0.5) * 0.6" for b
    using generateEEGSignal_branch_invariance [of 42 b] z by simp
  then show ?thesis
    using generateEEGSignal_branch_invariance [of 42 True] by simp
qed

end
